theory Spec2Isabelle
  imports Main "HOL-Library.Word"
begin

unbundle bit_operations_syntax

section \<open>The ST7789 addressing engine of main/main.c\<close>

text \<open>
  The development follows \<^verbatim>\<open>main/main.c\<close>. C \<^verbatim>\<open>int\<close> values are modelled as
  \<^typ>\<open>int\<close>; the only place where a width matters is the store of a computed edge into a
  \<^verbatim>\<open>uint16_t\<close>, which is written out as \<^term>\<open>word_of_int\<close> into a \<^typ>\<open>16 word\<close>. Since
  \<open>2 ^ 16\<close> divides \<open>2 ^ 32\<close>, the stored 16 bits are the same whether or not the 32-bit
  subtraction before the store wrapped around.

  Calls into ESP-IDF and LVGL are external. Every such call is appended to a trace, and
  the value a fallible call returns is supplied by an environment that sees the trace so
  far and the call being made: an \<^verbatim>\<open>esp_err_t\<close> for a panel call, success or failure for
  an allocation. What LVGL does inside \<^verbatim>\<open>lv_disp_set_rotation\<close> is not modelled; the
  driver record holds the resolution fields as \<^verbatim>\<open>main.c\<close> writes them. Logging calls are
  left out.
\<close>

subsection \<open>Constants and macros\<close>

type_synonym esp_err_t = int

definition ESP_OK :: esp_err_t where
  "ESP_OK = 0"

definition ESP_ERR_NO_MEM :: esp_err_t where
  "ESP_ERR_NO_MEM = 0x101"

definition ESP_ERR_INVALID_ARG :: esp_err_t where
  "ESP_ERR_INVALID_ARG = 0x102"

definition ESP_ERR_INVALID_STATE :: esp_err_t where
  "ESP_ERR_INVALID_STATE = 0x103"

definition ESP_FAIL :: esp_err_t where
  "ESP_FAIL = -1"

definition LCD_H_RES :: int where
  "LCD_H_RES = 170"

definition LCD_V_RES :: int where
  "LCD_V_RES = 320"

definition LCD_X_OFFSET :: int where
  "LCD_X_OFFSET = 0"

definition LCD_Y_OFFSET :: int where
  "LCD_Y_OFFSET = 0"

definition MIN_macro :: "int \<Rightarrow> int \<Rightarrow> int" where
  "MIN_macro a b = (if a < b then a else b)"

definition MAX_macro :: "int \<Rightarrow> int \<Rightarrow> int" where
  "MAX_macro a b = (if a > b then a else b)"

text \<open>
  \<^verbatim>\<open>display_orientation_t\<close> is a C enum: its four enumerators are 0 to 3, and a variable of
  the type can hold any other integer, which is what the \<^verbatim>\<open>default\<close> branches are for.
\<close>

type_synonym display_orientation_t = int

definition DISPLAY_ORIENTATION_0 :: display_orientation_t where
  "DISPLAY_ORIENTATION_0 = 0"

definition DISPLAY_ORIENTATION_90 :: display_orientation_t where
  "DISPLAY_ORIENTATION_90 = 1"

definition DISPLAY_ORIENTATION_180 :: display_orientation_t where
  "DISPLAY_ORIENTATION_180 = 2"

definition DISPLAY_ORIENTATION_270 :: display_orientation_t where
  "DISPLAY_ORIENTATION_270 = 3"

subsection \<open>External calls, environment and global state\<close>

datatype event =
    TxParam "8 word" "8 word list"
  | SetGap int int
  | DrawBitmap int int int int "16 word list"
  | TxColorEnd
  | Malloc int
  | Free
  | LvSetRotation int
  | FlushReady
  | Delay nat
  | HwCall string

text \<open>
  \<^term>\<open>TxParam\<close> is \<^verbatim>\<open>esp_lcd_panel_io_tx_param\<close> with its opcode and parameter bytes,
  \<^term>\<open>SetGap\<close> is \<^verbatim>\<open>esp_lcd_panel_set_gap\<close>, \<^term>\<open>DrawBitmap\<close> is
  \<^verbatim>\<open>esp_lcd_panel_draw_bitmap\<close> with its four coordinates and pixel buffer,
  \<^term>\<open>TxColorEnd\<close> is \<^verbatim>\<open>esp_lcd_panel_io_tx_color(io_handle, -1, NULL, 0)\<close>,
  \<^term>\<open>Malloc\<close> and \<^term>\<open>Free\<close> are \<^verbatim>\<open>heap_caps_malloc\<close> (with its byte count) and
  \<^verbatim>\<open>free\<close>, \<^term>\<open>LvSetRotation\<close> is \<^verbatim>\<open>lv_disp_set_rotation\<close>, \<^term>\<open>FlushReady\<close> is
  \<^verbatim>\<open>lv_disp_flush_ready\<close>, \<^term>\<open>Delay\<close> is \<^verbatim>\<open>vTaskDelay\<close> in milliseconds and
  \<^term>\<open>HwCall\<close> is a bring-up call wrapped in \<^verbatim>\<open>ESP_ERROR_CHECK\<close>.
\<close>

record env =
  io_result :: "event list \<Rightarrow> event \<Rightarrow> esp_err_t"
  malloc_ok :: "event list \<Rightarrow> int \<Rightarrow> bool"

record lv_disp_drv_t =
  hor_res :: int
  ver_res :: int

record globals =
  current_orientation :: display_orientation_t
  lvgl_disp :: "lv_disp_drv_t option"
  trace :: "event list"

definition emit :: "event \<Rightarrow> globals \<Rightarrow> globals" where
  "emit e s = s\<lparr>trace := trace s @ [e]\<rparr>"

definition call :: "env \<Rightarrow> event \<Rightarrow> globals \<Rightarrow> esp_err_t \<times> globals" where
  "call ev e s = (io_result ev (trace s) e, emit e s)"

subsection \<open>Orientation table of \<^verbatim>\<open>set_display_orientation\<close>\<close>

text \<open>
  The \<^verbatim>\<open>switch\<close> at the head of \<^verbatim>\<open>set_display_orientation\<close>: MADCTL value, logical
  resolution and gaps; \<^term>\<open>None\<close> is the \<^verbatim>\<open>default\<close> branch.
\<close>

definition orientation_params ::
  "display_orientation_t \<Rightarrow> (8 word \<times> int \<times> int \<times> int \<times> int) option" where
  "orientation_params orientation =
    (if orientation = DISPLAY_ORIENTATION_0 then Some (0x08, LCD_H_RES, LCD_V_RES, 35, 0)
     else if orientation = DISPLAY_ORIENTATION_90 then Some (0x68, LCD_V_RES, LCD_H_RES, 0, 35)
     else if orientation = DISPLAY_ORIENTATION_180 then Some (0xC8, LCD_H_RES, LCD_V_RES, 35, 0)
     else if orientation = DISPLAY_ORIENTATION_270 then Some (0xA8, LCD_V_RES, LCD_H_RES, 0, 35)
     else None)"

subsection \<open>\<^verbatim>\<open>set_draw_area\<close>\<close>

record window =
  col_start :: "16 word"
  col_end :: "16 word"
  row_start :: "16 word"
  row_end :: "16 word"

text \<open>The largest logical coordinates under an orientation (\<^verbatim>\<open>max_x\<close>, \<^verbatim>\<open>max_y\<close>).\<close>

definition max_x :: "display_orientation_t \<Rightarrow> int" where
  "max_x ori = (if ori = DISPLAY_ORIENTATION_0 \<or> ori = DISPLAY_ORIENTATION_180
                then LCD_H_RES - 1 else LCD_V_RES - 1)"

definition max_y :: "display_orientation_t \<Rightarrow> int" where
  "max_y ori = (if ori = DISPLAY_ORIENTATION_0 \<or> ori = DISPLAY_ORIENTATION_180
                then LCD_V_RES - 1 else LCD_H_RES - 1)"

text \<open>Offsets and clamping, the first half of \<^verbatim>\<open>set_draw_area\<close>.\<close>

definition clamp_area ::
  "display_orientation_t \<Rightarrow> int \<Rightarrow> int \<Rightarrow> int \<Rightarrow> int \<Rightarrow> int \<times> int \<times> int \<times> int" where
  "clamp_area ori x_start x_end y_start y_end =
    (let x_start = x_start + LCD_X_OFFSET;
         x_end = x_end + LCD_X_OFFSET;
         y_start = y_start + LCD_Y_OFFSET;
         y_end = y_end + LCD_Y_OFFSET;
         x_start = MAX_macro x_start 0;
         x_end = MIN_macro x_end (max_x ori);
         y_start = MAX_macro y_start 0;
         y_end = MIN_macro y_end (max_y ori)
     in (x_start, x_end, y_start, y_end))"

text \<open>
  The \<^verbatim>\<open>switch\<close> on \<^verbatim>\<open>current_orientation\<close>; each assignment stores an \<^verbatim>\<open>int\<close> into a
  \<^verbatim>\<open>uint16_t\<close>. \<^term>\<open>None\<close> is the \<^verbatim>\<open>default\<close> branch.
\<close>

definition to_physical ::
  "display_orientation_t \<Rightarrow> int \<times> int \<times> int \<times> int \<Rightarrow> window option" where
  "to_physical ori = (\<lambda>(x_start, x_end, y_start, y_end).
     if ori = DISPLAY_ORIENTATION_0 then
       Some \<lparr>col_start = word_of_int x_start, col_end = word_of_int x_end,
             row_start = word_of_int y_start, row_end = word_of_int y_end\<rparr>
     else if ori = DISPLAY_ORIENTATION_90 then
       Some \<lparr>col_start = word_of_int y_start, col_end = word_of_int y_end,
             row_start = word_of_int x_start, row_end = word_of_int x_end\<rparr>
     else if ori = DISPLAY_ORIENTATION_180 then
       Some \<lparr>col_start = word_of_int (LCD_H_RES - 1 - x_end),
             col_end = word_of_int (LCD_H_RES - 1 - x_start),
             row_start = word_of_int (LCD_V_RES - 1 - y_end),
             row_end = word_of_int (LCD_V_RES - 1 - y_start)\<rparr>
     else if ori = DISPLAY_ORIENTATION_270 then
       Some \<lparr>col_start = word_of_int (LCD_H_RES - 1 - y_end),
             col_end = word_of_int (LCD_H_RES - 1 - y_start),
             row_start = word_of_int (LCD_V_RES - 1 - x_end),
             row_end = word_of_int (LCD_V_RES - 1 - x_start)\<rparr>
     else None)"

text \<open>Both steps together: the physical window of a logical rectangle.\<close>

definition translate ::
  "display_orientation_t \<Rightarrow> int \<Rightarrow> int \<Rightarrow> int \<Rightarrow> int \<Rightarrow> window option" where
  "translate ori x_start x_end y_start y_end =
    to_physical ori (clamp_area ori x_start x_end y_start y_end)"

text \<open>The four parameter bytes \<^verbatim>\<open>params[0..3]\<close> of a window command.\<close>

definition window_params :: "16 word \<Rightarrow> 16 word \<Rightarrow> 8 word list" where
  "window_params a b =
    [ucast (drop_bit 8 a AND 0xFF), ucast (a AND 0xFF),
     ucast (drop_bit 8 b AND 0xFF), ucast (b AND 0xFF)]"

definition set_draw_area ::
  "env \<Rightarrow> int \<Rightarrow> int \<Rightarrow> int \<Rightarrow> int \<Rightarrow> globals \<Rightarrow> esp_err_t \<times> globals" where
  "set_draw_area ev x_start x_end y_start y_end s =
    (case translate (current_orientation s) x_start x_end y_start y_end of
       None \<Rightarrow> (ESP_ERR_INVALID_STATE, s)
     | Some w \<Rightarrow>
        (let (ret, s) = call ev (TxParam 0x2A (window_params (col_start w) (col_end w))) s in
         if ret \<noteq> ESP_OK then (ret, s) else
         let (ret, s) = call ev (TxParam 0x2B (window_params (row_start w) (row_end w))) s in
         if ret \<noteq> ESP_OK then (ret, s) else
         let (ret, s) = call ev (TxParam 0x2C []) s in
         if ret \<noteq> ESP_OK then (ret, s) else
         (ESP_OK, s)))"

subsection \<open>\<^verbatim>\<open>clear_screen\<close>\<close>

text \<open>
  The fill loop writes \<^verbatim>\<open>color\<close> at every index of the fresh buffer, so the buffer handed
  to the panel is \<^term>\<open>replicate\<close> of the colour.
\<close>

definition clear_screen :: "env \<Rightarrow> 16 word \<Rightarrow> globals \<Rightarrow> esp_err_t \<times> globals" where
  "clear_screen ev color s =
    (let hres = (if current_orientation s = DISPLAY_ORIENTATION_0
                    \<or> current_orientation s = DISPLAY_ORIENTATION_180
                 then LCD_H_RES else LCD_V_RES);
         vres = (if current_orientation s = DISPLAY_ORIENTATION_0
                    \<or> current_orientation s = DISPLAY_ORIENTATION_180
                 then LCD_V_RES else LCD_H_RES);
         got = malloc_ok ev (trace s) (hres * vres * 2);
         s = emit (Malloc (hres * vres * 2)) s
     in if \<not> got then (ESP_ERR_NO_MEM, s) else
        let buffer = replicate (nat (hres * vres)) color;
            (ret, s) = set_draw_area ev 0 (hres - 1) 0 (vres - 1) s
        in if ret \<noteq> ESP_OK then (ret, emit Free s) else
           let (ret, s) = call ev (DrawBitmap 0 0 hres vres buffer) s;
               s = emit TxColorEnd s;
               s = emit Free s
           in (ret, s))"

subsection \<open>\<^verbatim>\<open>set_display_orientation\<close>\<close>

definition set_display_orientation ::
  "env \<Rightarrow> display_orientation_t \<Rightarrow> globals \<Rightarrow> esp_err_t \<times> globals" where
  "set_display_orientation ev orientation s =
    (case orientation_params orientation of
       None \<Rightarrow> (ESP_ERR_INVALID_ARG, s)
     | Some (madctl, hres, vres, x_gap, y_gap) \<Rightarrow>
        (let (ret, s) = call ev (TxParam 0x36 [madctl]) s in
         if ret \<noteq> ESP_OK then (ret, s) else
         let (ret, s) = call ev (SetGap x_gap y_gap) s in
         if ret \<noteq> ESP_OK then (ret, s) else
         let s = s\<lparr>current_orientation := orientation\<rparr>;
             s = (case lvgl_disp s of
                    None \<Rightarrow> s
                  | Some drv \<Rightarrow>
                      emit (LvSetRotation (orientation * 90))
                        (s\<lparr>lvgl_disp := Some (drv\<lparr>hor_res := hres, ver_res := vres\<rparr>)\<rparr>))
         in clear_screen ev 0x0000 s))"

subsection \<open>\<^verbatim>\<open>lvgl_flush_cb\<close>\<close>

record lv_area_t =
  x1 :: int
  y1 :: int
  x2 :: int
  y2 :: int

definition lvgl_flush_cb :: "env \<Rightarrow> lv_area_t \<Rightarrow> 16 word list \<Rightarrow> globals \<Rightarrow> globals" where
  "lvgl_flush_cb ev area color_p s =
    (let x_start = x1 area; x_end = x2 area; y_start = y1 area; y_end = y2 area;
         (ret, s) = set_draw_area ev x_start x_end y_start y_end s
     in if ret \<noteq> ESP_OK then s else
        let (ret, s) = call ev (DrawBitmap x_start y_start (x_end + 1) (y_end + 1) color_p) s
        in if ret \<noteq> ESP_OK then s else
           emit FlushReady (emit TxColorEnd s))"

subsection \<open>Start-up: \<^verbatim>\<open>init_display\<close> and \<^verbatim>\<open>init_lvgl\<close>\<close>

record lcd_cmd_t =
  addr :: "8 word"
  param :: "8 word list"
  len :: "8 word"

text \<open>A \<^verbatim>\<open>param[16]\<close> array holds its initialisers followed by zeros.\<close>

definition param16 :: "8 word list \<Rightarrow> 8 word list" where
  "param16 xs = xs @ replicate (16 - length xs) 0"

definition lcd_st7789v :: "lcd_cmd_t list" where
  "lcd_st7789v =
    [\<lparr>addr = 0x11, param = param16 [0], len = 0 OR 0x80\<rparr>,
     \<lparr>addr = 0x21, param = param16 [0], len = 0\<rparr>,
     \<lparr>addr = 0x35, param = param16 [0x00], len = 1\<rparr>,
     \<lparr>addr = 0x3A, param = param16 [0x55], len = 1\<rparr>,
     \<lparr>addr = 0xB2, param = param16 [0x0C, 0x0C, 0x00, 0x33, 0x33], len = 5\<rparr>,
     \<lparr>addr = 0xB7, param = param16 [0x35], len = 1\<rparr>,
     \<lparr>addr = 0xBB, param = param16 [0x19], len = 1\<rparr>,
     \<lparr>addr = 0xC0, param = param16 [0x2C], len = 1\<rparr>,
     \<lparr>addr = 0xC2, param = param16 [0x01], len = 1\<rparr>,
     \<lparr>addr = 0xC3, param = param16 [0x12], len = 1\<rparr>,
     \<lparr>addr = 0xC4, param = param16 [0x20], len = 1\<rparr>,
     \<lparr>addr = 0xC6, param = param16 [0x0F], len = 1\<rparr>,
     \<lparr>addr = 0xD0, param = param16 [0xA4, 0xA1], len = 2\<rparr>,
     \<lparr>addr = 0xE0, param = param16 [0xD0, 0x08, 0x11, 0x08, 0x09, 0x15, 0x31, 0x33,
                                      0x48, 0x17, 0x14, 0x15, 0x31, 0x34], len = 14\<rparr>,
     \<lparr>addr = 0xE1, param = param16 [0xD0, 0x08, 0x11, 0x08, 0x09, 0x15, 0x31, 0x33,
                                      0x48, 0x17, 0x14, 0x15, 0x31, 0x34], len = 14\<rparr>,
     \<lparr>addr = 0x2A, param = param16 [0x00, 0x00, 0x01, 0x3F], len = 4\<rparr>,
     \<lparr>addr = 0x2B, param = param16 [0x00, 0x00, 0x00, 0xA9], len = 4\<rparr>,
     \<lparr>addr = 0x29, param = param16 [0], len = 0 OR 0x80\<rparr>,
     \<lparr>addr = 0, param = param16 [0], len = 0xff\<rparr>]"

text \<open>
  The loop over the table stops at the terminating entry; the result of each command is
  only logged.
\<close>

fun send_init_cmds :: "env \<Rightarrow> lcd_cmd_t list \<Rightarrow> globals \<Rightarrow> globals" where
  "send_init_cmds ev [] s = s"
| "send_init_cmds ev (c # cs) s =
    (if addr c \<noteq> 0 \<or> len c \<noteq> 0xff then
       let (ret, s) = call ev (TxParam (addr c) (take (unat (len c AND 0x7f)) (param c))) s;
           s = (if len c AND 0x80 \<noteq> 0 then emit (Delay 120) s else s)
       in send_init_cmds ev cs s
     else s)"

text \<open>\<^verbatim>\<open>ESP_ERROR_CHECK\<close> aborts the program when the call fails: \<^term>\<open>None\<close>.\<close>

fun esp_error_check :: "env \<Rightarrow> string list \<Rightarrow> globals \<Rightarrow> globals option" where
  "esp_error_check ev [] s = Some s"
| "esp_error_check ev (f # fs) s =
    (let (ret, s) = call ev (HwCall f) s in
     if ret \<noteq> ESP_OK then None else esp_error_check ev fs s)"

definition init_display :: "env \<Rightarrow> globals \<Rightarrow> globals option" where
  "init_display ev s =
    (case esp_error_check ev
            [''gpio_config(rd)'', ''gpio_set_level(LCD_PIN_RD)'',
             ''gpio_config(bk)'', ''gpio_set_level(LCD_PIN_BK_LIGHT)''] s of
       None \<Rightarrow> None
     | Some s \<Rightarrow>
    (case esp_error_check ev
            [''esp_lcd_new_i80_bus'', ''esp_lcd_new_panel_io_i80'',
             ''esp_lcd_new_panel_st7789'', ''esp_lcd_panel_reset''] (emit (Delay 100) s) of
       None \<Rightarrow> None
     | Some s \<Rightarrow>
    (case esp_error_check ev [''esp_lcd_panel_disp_on_off'']
            (send_init_cmds ev lcd_st7789v (emit (Delay 100) s)) of
       None \<Rightarrow> None
     | Some s \<Rightarrow> Some (snd (set_display_orientation ev DISPLAY_ORIENTATION_90 s)))))"

text \<open>
  \<^verbatim>\<open>init_lvgl\<close> registers the driver with the resolution it writes into \<^verbatim>\<open>disp_drv\<close>.
\<close>

definition init_lvgl :: "globals \<Rightarrow> globals" where
  "init_lvgl s = s\<lparr>lvgl_disp := Some \<lparr>hor_res = LCD_V_RES, ver_res = LCD_H_RES\<rparr>\<rparr>"

text \<open>The static initialisers of the globals.\<close>

definition initial_globals :: globals where
  "initial_globals =
    \<lparr>current_orientation = DISPLAY_ORIENTATION_90, lvgl_disp = None, trace = []\<rparr>"

text \<open>The first two calls of \<^verbatim>\<open>app_main\<close>.\<close>

definition startup :: "env \<Rightarrow> globals option" where
  "startup ev = map_option init_lvgl (init_display ev initial_globals)"

subsection \<open>Notions used to state the properties\<close>

text \<open>The four fields of a window read as unsigned numbers.\<close>

definition window_ints :: "window \<Rightarrow> int \<times> int \<times> int \<times> int" where
  "window_ints w = (uint (col_start w), uint (col_end w), uint (row_start w), uint (row_end w))"

text \<open>
  The inverse of the orientation mapping, from a physical window back to the logical
  rectangle; it is not part of \<^verbatim>\<open>main.c\<close> and serves to state the round-trip law.
\<close>

definition inverse_window ::
  "display_orientation_t \<Rightarrow> int \<times> int \<times> int \<times> int \<Rightarrow> int \<times> int \<times> int \<times> int" where
  "inverse_window ori = (\<lambda>(cs, ce, rs, re).
     if ori = DISPLAY_ORIENTATION_0 then (cs, ce, rs, re)
     else if ori = DISPLAY_ORIENTATION_90 then (rs, re, cs, ce)
     else if ori = DISPLAY_ORIENTATION_180 then
       (LCD_H_RES - 1 - ce, LCD_H_RES - 1 - cs, LCD_V_RES - 1 - re, LCD_V_RES - 1 - rs)
     else (LCD_V_RES - 1 - re, LCD_V_RES - 1 - rs, LCD_H_RES - 1 - ce, LCD_H_RES - 1 - cs))"

text \<open>The four enumerators of \<^verbatim>\<open>display_orientation_t\<close>.\<close>

definition valid_orientation :: "display_orientation_t \<Rightarrow> bool" where
  "valid_orientation ori \<longleftrightarrow>
     ori = DISPLAY_ORIENTATION_0 \<or> ori = DISPLAY_ORIENTATION_90
     \<or> ori = DISPLAY_ORIENTATION_180 \<or> ori = DISPLAY_ORIENTATION_270"

text \<open>Two concrete environments: everything succeeds; only the allocation fails.\<close>

definition transport_ok :: env where
  "transport_ok = \<lparr>io_result = (\<lambda>h e. ESP_OK), malloc_ok = (\<lambda>h n. True)\<rparr>"

definition malloc_fails :: env where
  "malloc_fails = \<lparr>io_result = (\<lambda>h e. ESP_OK), malloc_ok = (\<lambda>h n. False)\<rparr>"


text \<open>A transport on which the row-window command fails, and one on which the gap update fails.\<close>

definition raset_fails :: env where
  "raset_fails =
    \<lparr>io_result = (\<lambda>h e. case e of TxParam c p \<Rightarrow> (if c = 0x2B then ESP_FAIL else ESP_OK)
                                 | _ \<Rightarrow> ESP_OK),
     malloc_ok = (\<lambda>h n. True)\<rparr>"

definition gap_fails :: env where
  "gap_fails =
    \<lparr>io_result = (\<lambda>h e. case e of SetGap x y \<Rightarrow> ESP_FAIL | _ \<Rightarrow> ESP_OK),
     malloc_ok = (\<lambda>h n. True)\<rparr>"

text \<open>The three commands \<^verbatim>\<open>set_draw_area\<close> issues for a window.\<close>

definition caset :: "window \<Rightarrow> event" where
  "caset w = TxParam 0x2A (window_params (col_start w) (col_end w))"

definition raset :: "window \<Rightarrow> event" where
  "raset w = TxParam 0x2B (window_params (row_start w) (row_end w))"

definition ramwr :: event where
  "ramwr = TxParam 0x2C []"

text \<open>
  The state update of \<^verbatim>\<open>set_display_orientation\<close> between the gap command and the clear.
\<close>

definition switch_state ::
  "display_orientation_t \<Rightarrow> int \<Rightarrow> int \<Rightarrow> globals \<Rightarrow> globals" where
  "switch_state orientation hres vres s =
    (let s = s\<lparr>current_orientation := orientation\<rparr> in
     case lvgl_disp s of
       None \<Rightarrow> s
     | Some drv \<Rightarrow>
         emit (LvSetRotation (orientation * 90))
           (s\<lparr>lvgl_disp := Some (drv\<lparr>hor_res := hres, ver_res := vres\<rparr>)\<rparr>))"

text \<open>
  The states the program can be in after start-up: orientation changes, clears and flushes
  are the operations that follow.
\<close>

inductive reachable :: "globals \<Rightarrow> bool" where
  boot: "startup ev = Some s \<Longrightarrow> reachable s"
| orient: "reachable s \<Longrightarrow> reachable (snd (set_display_orientation ev orientation s))"
| clear: "reachable s \<Longrightarrow> reachable (snd (clear_screen ev color s))"
| flush: "reachable s \<Longrightarrow> reachable (lvgl_flush_cb ev area color_p s)"

section \<open>Properties\<close>

subsection \<open>Auxiliary facts\<close>

lemmas orientation_defs =
  DISPLAY_ORIENTATION_0_def DISPLAY_ORIENTATION_90_def
  DISPLAY_ORIENTATION_180_def DISPLAY_ORIENTATION_270_def

lemmas lcd_defs = LCD_H_RES_def LCD_V_RES_def LCD_X_OFFSET_def LCD_Y_OFFSET_def

lemmas esp_defs =
  ESP_OK_def ESP_ERR_NO_MEM_def ESP_ERR_INVALID_ARG_def ESP_ERR_INVALID_STATE_def

lemma clamp_area_eq:
  "clamp_area ori x_start x_end y_start y_end =
     (max x_start 0, min x_end (max_x ori), max y_start 0, min y_end (max_y ori))"
  by (simp add: clamp_area_def MAX_macro_def MIN_macro_def lcd_defs max_def min_def)

lemma uint_u16_id: "0 \<le> k \<Longrightarrow> k < 65536 \<Longrightarrow> uint (word_of_int k :: 16 word) = k"
  by (simp add: uint_word_of_int)

lemma max_x_cases:
  "max_x DISPLAY_ORIENTATION_0 = 169" "max_x DISPLAY_ORIENTATION_90 = 319"
  "max_x DISPLAY_ORIENTATION_180 = 169" "max_x DISPLAY_ORIENTATION_270 = 319"
  by (simp_all add: max_x_def orientation_defs lcd_defs)

lemma max_y_cases:
  "max_y DISPLAY_ORIENTATION_0 = 319" "max_y DISPLAY_ORIENTATION_90 = 169"
  "max_y DISPLAY_ORIENTATION_180 = 319" "max_y DISPLAY_ORIENTATION_270 = 169"
  by (simp_all add: max_y_def orientation_defs lcd_defs)

lemma max_xy_bounds:
  "0 \<le> max_x ori" "max_x ori \<le> 319" "0 \<le> max_y ori" "max_y ori \<le> 319"
  by (simp_all add: max_x_def max_y_def lcd_defs)

lemma window_ints_of_int:
  assumes "0 \<le> a" "a < 65536" "0 \<le> b" "b < 65536" "0 \<le> c" "c < 65536" "0 \<le> d" "d < 65536"
  shows "window_ints \<lparr>col_start = word_of_int a, col_end = word_of_int b,
                       row_start = word_of_int c, row_end = word_of_int d\<rparr> = (a, b, c, d)"
  using assms by (simp add: window_ints_def uint_u16_id)

lemma translate_words:
  assumes "clamp_area ori x_start x_end y_start y_end = (xs, xe, ys, ye)"
  shows "(ori = DISPLAY_ORIENTATION_0 \<longrightarrow>
            translate ori x_start x_end y_start y_end =
              Some \<lparr>col_start = word_of_int xs, col_end = word_of_int xe,
                    row_start = word_of_int ys, row_end = word_of_int ye\<rparr>)
       \<and> (ori = DISPLAY_ORIENTATION_90 \<longrightarrow>
            translate ori x_start x_end y_start y_end =
              Some \<lparr>col_start = word_of_int ys, col_end = word_of_int ye,
                    row_start = word_of_int xs, row_end = word_of_int xe\<rparr>)
       \<and> (ori = DISPLAY_ORIENTATION_180 \<longrightarrow>
            translate ori x_start x_end y_start y_end =
              Some \<lparr>col_start = word_of_int (170 - 1 - xe), col_end = word_of_int (170 - 1 - xs),
                    row_start = word_of_int (320 - 1 - ye), row_end = word_of_int (320 - 1 - ys)\<rparr>)
       \<and> (ori = DISPLAY_ORIENTATION_270 \<longrightarrow>
            translate ori x_start x_end y_start y_end =
              Some \<lparr>col_start = word_of_int (170 - 1 - ye), col_end = word_of_int (170 - 1 - ys),
                    row_start = word_of_int (320 - 1 - xe), row_end = word_of_int (320 - 1 - xs)\<rparr>)"
  unfolding translate_def assms
  by (simp add: to_physical_def orientation_defs lcd_defs)

lemma translate_overlap:
  assumes ov: "0 \<le> x_end" "x_start \<le> max_x ori" "0 \<le> y_end" "y_start \<le> max_y ori"
    and cl: "clamp_area ori x_start x_end y_start y_end = (xs, xe, ys, ye)"
  shows "(ori = DISPLAY_ORIENTATION_0 \<longrightarrow>
            map_option window_ints (translate ori x_start x_end y_start y_end) =
              Some (xs, xe, ys, ye))
       \<and> (ori = DISPLAY_ORIENTATION_90 \<longrightarrow>
            map_option window_ints (translate ori x_start x_end y_start y_end) =
              Some (ys, ye, xs, xe))
       \<and> (ori = DISPLAY_ORIENTATION_180 \<longrightarrow>
            map_option window_ints (translate ori x_start x_end y_start y_end) =
              Some (170 - 1 - xe, 170 - 1 - xs, 320 - 1 - ye, 320 - 1 - ys))
       \<and> (ori = DISPLAY_ORIENTATION_270 \<longrightarrow>
            map_option window_ints (translate ori x_start x_end y_start y_end) =
              Some (170 - 1 - ye, 170 - 1 - ys, 320 - 1 - xe, 320 - 1 - xs))"
proof -
  have b: "0 \<le> xs" "xs \<le> max_x ori" "0 \<le> xe" "xe \<le> max_x ori"
          "0 \<le> ys" "ys \<le> max_y ori" "0 \<le> ye" "ye \<le> max_y ori"
    using ov cl max_xy_bounds [of ori] unfolding clamp_area_eq by auto
  note w = translate_words [OF cl]
  have c0: "map_option window_ints (translate ori x_start x_end y_start y_end) =
              Some (xs, xe, ys, ye)" if o: "ori = DISPLAY_ORIENTATION_0"
  proof -
    have "window_ints \<lparr>col_start = word_of_int xs, col_end = word_of_int xe,
                       row_start = word_of_int ys, row_end = word_of_int ye\<rparr> = (xs, xe, ys, ye)"
      by (rule window_ints_of_int) (use b o in \<open>simp_all add: max_x_cases max_y_cases\<close>)
    with w o show ?thesis by (simp only: option.map)
  qed
  have c1: "map_option window_ints (translate ori x_start x_end y_start y_end) =
              Some (ys, ye, xs, xe)" if o: "ori = DISPLAY_ORIENTATION_90"
  proof -
    have "window_ints \<lparr>col_start = word_of_int ys, col_end = word_of_int ye,
                       row_start = word_of_int xs, row_end = word_of_int xe\<rparr> = (ys, ye, xs, xe)"
      by (rule window_ints_of_int) (use b o in \<open>simp_all add: max_x_cases max_y_cases\<close>)
    with w o show ?thesis by (simp only: option.map)
  qed
  have c2: "map_option window_ints (translate ori x_start x_end y_start y_end) =
              Some (170 - 1 - xe, 170 - 1 - xs, 320 - 1 - ye, 320 - 1 - ys)"
    if o: "ori = DISPLAY_ORIENTATION_180"
  proof -
    have "window_ints \<lparr>col_start = word_of_int (170 - 1 - xe), col_end = word_of_int (170 - 1 - xs),
                       row_start = word_of_int (320 - 1 - ye), row_end = word_of_int (320 - 1 - ys)\<rparr>
            = (170 - 1 - xe, 170 - 1 - xs, 320 - 1 - ye, 320 - 1 - ys)"
      by (rule window_ints_of_int) (use b o in \<open>simp_all add: max_x_cases max_y_cases\<close>)
    with w o show ?thesis by (simp only: option.map)
  qed
  have c3: "map_option window_ints (translate ori x_start x_end y_start y_end) =
              Some (170 - 1 - ye, 170 - 1 - ys, 320 - 1 - xe, 320 - 1 - xs)"
    if o: "ori = DISPLAY_ORIENTATION_270"
  proof -
    have "window_ints \<lparr>col_start = word_of_int (170 - 1 - ye), col_end = word_of_int (170 - 1 - ys),
                       row_start = word_of_int (320 - 1 - xe), row_end = word_of_int (320 - 1 - xs)\<rparr>
            = (170 - 1 - ye, 170 - 1 - ys, 320 - 1 - xe, 320 - 1 - xs)"
      by (rule window_ints_of_int) (use b o in \<open>simp_all add: max_x_cases max_y_cases\<close>)
    with w o show ?thesis by (simp only: option.map)
  qed
  from c0 c1 c2 c3 show ?thesis by blast
qed


subsection \<open>The address-window translation\<close>

text \<open>
  C1. Under each of the four orientations \<^verbatim>\<open>set_draw_area\<close> maps the clamped logical
  edges \<open>xs, xe, ys, ye\<close> to the physical window by its own branch: identity at 0 degrees, axis
  swap at 90 degrees, inversion of both axes at 180 degrees (\<open>170 - 1 - edge\<close> for columns,
  \<open>320 - 1 - edge\<close> for rows) and swap with inversion at 270 degrees. The window fields are the
  16-bit stores of these values; for a rectangle that meets the panel they are the values
  themselves.
\<close>

theorem set_draw_area_four_branches:
  assumes "clamp_area ori x_start x_end y_start y_end = (xs, xe, ys, ye)"
  shows "(ori = DISPLAY_ORIENTATION_0 \<longrightarrow>
            translate ori x_start x_end y_start y_end =
              Some \<lparr>col_start = word_of_int xs, col_end = word_of_int xe,
                    row_start = word_of_int ys, row_end = word_of_int ye\<rparr>)
       \<and> (ori = DISPLAY_ORIENTATION_90 \<longrightarrow>
            translate ori x_start x_end y_start y_end =
              Some \<lparr>col_start = word_of_int ys, col_end = word_of_int ye,
                    row_start = word_of_int xs, row_end = word_of_int xe\<rparr>)
       \<and> (ori = DISPLAY_ORIENTATION_180 \<longrightarrow>
            translate ori x_start x_end y_start y_end =
              Some \<lparr>col_start = word_of_int (170 - 1 - xe), col_end = word_of_int (170 - 1 - xs),
                    row_start = word_of_int (320 - 1 - ye), row_end = word_of_int (320 - 1 - ys)\<rparr>)
       \<and> (ori = DISPLAY_ORIENTATION_270 \<longrightarrow>
            translate ori x_start x_end y_start y_end =
              Some \<lparr>col_start = word_of_int (170 - 1 - ye), col_end = word_of_int (170 - 1 - ys),
                    row_start = word_of_int (320 - 1 - xe), row_end = word_of_int (320 - 1 - xs)\<rparr>)
       \<and> (0 \<le> x_end \<and> x_start \<le> max_x ori \<and> 0 \<le> y_end \<and> y_start \<le> max_y ori \<longrightarrow>
            (ori = DISPLAY_ORIENTATION_0 \<longrightarrow>
               map_option window_ints (translate ori x_start x_end y_start y_end) =
                 Some (xs, xe, ys, ye))
          \<and> (ori = DISPLAY_ORIENTATION_90 \<longrightarrow>
               map_option window_ints (translate ori x_start x_end y_start y_end) =
                 Some (ys, ye, xs, xe))
          \<and> (ori = DISPLAY_ORIENTATION_180 \<longrightarrow>
               map_option window_ints (translate ori x_start x_end y_start y_end) =
                 Some (170 - 1 - xe, 170 - 1 - xs, 320 - 1 - ye, 320 - 1 - ys))
          \<and> (ori = DISPLAY_ORIENTATION_270 \<longrightarrow>
               map_option window_ints (translate ori x_start x_end y_start y_end) =
                 Some (170 - 1 - ye, 170 - 1 - ys, 320 - 1 - xe, 320 - 1 - xs)))"
proof -
  note w = translate_words [OF assms]
  have "0 \<le> x_end \<and> x_start \<le> max_x ori \<and> 0 \<le> y_end \<and> y_start \<le> max_y ori \<longrightarrow>
            (ori = DISPLAY_ORIENTATION_0 \<longrightarrow>
               map_option window_ints (translate ori x_start x_end y_start y_end) =
                 Some (xs, xe, ys, ye))
          \<and> (ori = DISPLAY_ORIENTATION_90 \<longrightarrow>
               map_option window_ints (translate ori x_start x_end y_start y_end) =
                 Some (ys, ye, xs, xe))
          \<and> (ori = DISPLAY_ORIENTATION_180 \<longrightarrow>
               map_option window_ints (translate ori x_start x_end y_start y_end) =
                 Some (170 - 1 - xe, 170 - 1 - xs, 320 - 1 - ye, 320 - 1 - ys))
          \<and> (ori = DISPLAY_ORIENTATION_270 \<longrightarrow>
               map_option window_ints (translate ori x_start x_end y_start y_end) =
                 Some (170 - 1 - ye, 170 - 1 - ys, 320 - 1 - xe, 320 - 1 - xs))"
    using translate_overlap [OF _ _ _ _ assms] by blast
  with w show ?thesis by blast
qed

theorem set_draw_area_four_branches_witness:
  "clamp_area DISPLAY_ORIENTATION_270 10 400 (-5) 20 = (10, 319, 0, 20)
   \<and> translate DISPLAY_ORIENTATION_270 10 400 (-5) 20 =
       Some \<lparr>col_start = 149, col_end = 169, row_start = 0, row_end = 309\<rparr>
   \<and> map_option window_ints (translate DISPLAY_ORIENTATION_270 10 400 (-5) 20) =
       Some (149, 169, 0, 309)"
proof -
  have c: "clamp_area DISPLAY_ORIENTATION_270 10 400 (-5) 20 = (10, 319, 0, 20)"
    by (simp add: clamp_area_eq max_x_cases max_y_cases)
  show ?thesis
    using set_draw_area_four_branches [OF c] c
    by (auto simp: max_x_cases max_y_cases window_ints_def)
qed

text \<open>
  C2. A rectangle that lies inside the panel bounds of the orientation is recovered from
  its physical window by the inverse mapping of the same orientation.
\<close>

theorem translate_roundtrip:
  assumes "valid_orientation ori"
    and "0 \<le> x_start" "x_start \<le> x_end" "x_end \<le> max_x ori"
    and "0 \<le> y_start" "y_start \<le> y_end" "y_end \<le> max_y ori"
  shows "map_option (inverse_window ori \<circ> window_ints) (translate ori x_start x_end y_start y_end)
           = Some (x_start, x_end, y_start, y_end)"
proof -
  have cl: "clamp_area ori x_start x_end y_start y_end = (x_start, x_end, y_start, y_end)"
    using assms by (simp add: clamp_area_eq)
  have ov: "0 \<le> x_end" "x_start \<le> max_x ori" "0 \<le> y_end" "y_start \<le> max_y ori"
    using assms by auto
  from translate_overlap [OF ov cl] assms(1) show ?thesis
    unfolding valid_orientation_def
    by (auto simp: inverse_window_def orientation_defs lcd_defs)
qed

theorem translate_roundtrip_witness:
  "valid_orientation DISPLAY_ORIENTATION_180
   \<and> (0::int) \<le> 10 \<and> (10::int) \<le> 50 \<and> 50 \<le> max_x DISPLAY_ORIENTATION_180
   \<and> (0::int) \<le> 20 \<and> (20::int) \<le> 300 \<and> 300 \<le> max_y DISPLAY_ORIENTATION_180
   \<and> map_option window_ints (translate DISPLAY_ORIENTATION_180 10 50 20 300) = Some (119, 159, 19, 299)
   \<and> map_option (inverse_window DISPLAY_ORIENTATION_180 \<circ> window_ints)
        (translate DISPLAY_ORIENTATION_180 10 50 20 300) = Some (10, 50, 20, 300)"
proof -
  have v: "valid_orientation DISPLAY_ORIENTATION_180"
    by (simp add: valid_orientation_def)
  have b: "(0::int) \<le> 10" "(10::int) \<le> 50" "50 \<le> max_x DISPLAY_ORIENTATION_180"
          "(0::int) \<le> 20" "(20::int) \<le> 300" "300 \<le> max_y DISPLAY_ORIENTATION_180"
    by (simp_all add: max_x_cases max_y_cases)
  have w: "map_option window_ints (translate DISPLAY_ORIENTATION_180 10 50 20 300) = Some (119, 159, 19, 299)"
    by (simp add: translate_def clamp_area_eq max_x_cases max_y_cases)
      (simp add: to_physical_def orientation_defs lcd_defs window_ints_def)
  show ?thesis
    using translate_roundtrip [OF v b] v b w by simp
qed

subsection \<open>Clamping\<close>

text \<open>
  C3. For a rectangle with ordered edges that has a pixel on the panel and may extend past
  the panel edges, \<^verbatim>\<open>set_draw_area\<close> does not fail: it truncates the rectangle to its
  part on the panel, the physical window is that part under the orientation mapping
  (nothing wraps around), the window is ordered with columns in \<open>[0, 169]\<close> and rows in
  \<open>[0, 319]\<close>, and the call returns \<^verbatim>\<open>ESP_OK\<close> whenever the transport accepts the
  three commands.
\<close>

theorem clamp_window_in_bounds:
  assumes "valid_orientation ori"
    and "x_start \<le> x_end" "y_start \<le> y_end"
    and "0 \<le> x_end" "x_start \<le> max_x ori" "0 \<le> y_end" "y_start \<le> max_y ori"
  shows "\<exists>w. translate ori x_start x_end y_start y_end = Some w
           \<and> clamp_area ori x_start x_end y_start y_end =
               (max x_start 0, min x_end (max_x ori), max y_start 0, min y_end (max_y ori))
           \<and> col_start w \<le> col_end w \<and> row_start w \<le> row_end w
           \<and> uint (col_end w) \<le> 169 \<and> uint (row_end w) \<le> 319
           \<and> inverse_window ori (window_ints w) =
               (max x_start 0, min x_end (max_x ori), max y_start 0, min y_end (max_y ori))
           \<and> (\<forall>ev s. current_orientation s = ori
                  \<and> (\<forall>h c p. io_result ev h (TxParam c p) = ESP_OK) \<longrightarrow>
                fst (set_draw_area ev x_start x_end y_start y_end s) = ESP_OK)"
proof -
  define xs xe ys ye where "xs = max x_start 0" and "xe = min x_end (max_x ori)"
    and "ys = max y_start 0" and "ye = min y_end (max_y ori)"
  have cl: "clamp_area ori x_start x_end y_start y_end = (xs, xe, ys, ye)"
    by (simp add: clamp_area_eq xs_def xe_def ys_def ye_def)
  have b: "0 \<le> xs" "xs \<le> xe" "xe \<le> max_x ori" "0 \<le> ys" "ys \<le> ye" "ye \<le> max_y ori"
    using assms max_xy_bounds [of ori] by (auto simp: xs_def xe_def ys_def ye_def)
  note ov = translate_overlap [OF assms(4-7) cl]
  from assms(1) consider "ori = DISPLAY_ORIENTATION_0" | "ori = DISPLAY_ORIENTATION_90"
    | "ori = DISPLAY_ORIENTATION_180" | "ori = DISPLAY_ORIENTATION_270"
    unfolding valid_orientation_def by blast
  then have "\<exists>w. translate ori x_start x_end y_start y_end = Some w
           \<and> col_start w \<le> col_end w \<and> row_start w \<le> row_end w
           \<and> uint (col_end w) \<le> 169 \<and> uint (row_end w) \<le> 319
           \<and> inverse_window ori (window_ints w) = (xs, xe, ys, ye)"
  proof cases
    case 1
    with ov obtain w where w: "translate ori x_start x_end y_start y_end = Some w"
      and wi: "window_ints w = (xs, xe, ys, ye)"
      by auto
    from wi b 1 have "col_start w \<le> col_end w \<and> row_start w \<le> row_end w
           \<and> uint (col_end w) \<le> 169 \<and> uint (row_end w) \<le> 319"
      by (auto simp: window_ints_def word_le_def max_x_cases max_y_cases)
    moreover have "inverse_window ori (window_ints w) = (xs, xe, ys, ye)"
      by (simp add: wi 1 inverse_window_def orientation_defs lcd_defs)
    ultimately show ?thesis using w by blast
  next
    case 2
    with ov obtain w where w: "translate ori x_start x_end y_start y_end = Some w"
      and wi: "window_ints w = (ys, ye, xs, xe)"
      by auto
    from wi b 2 have "col_start w \<le> col_end w \<and> row_start w \<le> row_end w
           \<and> uint (col_end w) \<le> 169 \<and> uint (row_end w) \<le> 319"
      by (auto simp: window_ints_def word_le_def max_x_cases max_y_cases)
    moreover have "inverse_window ori (window_ints w) = (xs, xe, ys, ye)"
      by (simp add: wi 2 inverse_window_def orientation_defs lcd_defs)
    ultimately show ?thesis using w by blast
  next
    case 3
    with ov obtain w where w: "translate ori x_start x_end y_start y_end = Some w"
      and wi: "window_ints w = (170 - 1 - xe, 170 - 1 - xs, 320 - 1 - ye, 320 - 1 - ys)"
      by auto
    from wi b 3 have "col_start w \<le> col_end w \<and> row_start w \<le> row_end w
           \<and> uint (col_end w) \<le> 169 \<and> uint (row_end w) \<le> 319"
      by (auto simp: window_ints_def word_le_def max_x_cases max_y_cases)
    moreover have "inverse_window ori (window_ints w) = (xs, xe, ys, ye)"
      by (simp add: wi 3 inverse_window_def orientation_defs lcd_defs)
    ultimately show ?thesis using w by blast
  next
    case 4
    with ov obtain w where w: "translate ori x_start x_end y_start y_end = Some w"
      and wi: "window_ints w = (170 - 1 - ye, 170 - 1 - ys, 320 - 1 - xe, 320 - 1 - xs)"
      by auto
    from wi b 4 have "col_start w \<le> col_end w \<and> row_start w \<le> row_end w
           \<and> uint (col_end w) \<le> 169 \<and> uint (row_end w) \<le> 319"
      by (auto simp: window_ints_def word_le_def max_x_cases max_y_cases)
    moreover have "inverse_window ori (window_ints w) = (xs, xe, ys, ye)"
      by (simp add: wi 4 inverse_window_def orientation_defs lcd_defs)
    ultimately show ?thesis using w by blast
  qed
  then obtain w where w: "translate ori x_start x_end y_start y_end = Some w"
    and p: "col_start w \<le> col_end w" "row_start w \<le> row_end w"
      "uint (col_end w) \<le> 169" "uint (row_end w) \<le> 319"
      "inverse_window ori (window_ints w) = (xs, xe, ys, ye)"
    by blast
  have ok: "\<forall>ev s. current_orientation s = ori
                  \<and> (\<forall>h c p. io_result ev h (TxParam c p) = ESP_OK) \<longrightarrow>
                fst (set_draw_area ev x_start x_end y_start y_end s) = ESP_OK"
    using w by (simp add: set_draw_area_def call_def emit_def)
  from w p ok cl show ?thesis
    by (simp add: xs_def xe_def ys_def ye_def)
qed

theorem clamp_window_in_bounds_witness:
  "valid_orientation DISPLAY_ORIENTATION_90
   \<and> (300::int) \<le> 400 \<and> (-5::int) \<le> 20 \<and> (0::int) \<le> 400
   \<and> 300 \<le> max_x DISPLAY_ORIENTATION_90 \<and> (0::int) \<le> 20 \<and> -5 \<le> max_y DISPLAY_ORIENTATION_90
   \<and> translate DISPLAY_ORIENTATION_90 300 400 (-5) 20 =
        Some \<lparr>col_start = 0, col_end = 20, row_start = 300, row_end = 319\<rparr>
   \<and> (\<exists>w. translate DISPLAY_ORIENTATION_90 300 400 (-5) 20 = Some w
           \<and> col_start w \<le> col_end w \<and> row_start w \<le> row_end w
           \<and> uint (col_end w) \<le> 169 \<and> uint (row_end w) \<le> 319
           \<and> inverse_window DISPLAY_ORIENTATION_90 (window_ints w) = (300, 319, 0, 20))
   \<and> fst (set_draw_area transport_ok 300 400 (-5) 20 initial_globals) = ESP_OK"
proof -
  have v: "valid_orientation DISPLAY_ORIENTATION_90"
    by (simp add: valid_orientation_def)
  have h: "(300::int) \<le> 400" "(-5::int) \<le> 20" "(0::int) \<le> 400"
      "300 \<le> max_x DISPLAY_ORIENTATION_90" "(0::int) \<le> 20" "-5 \<le> max_y DISPLAY_ORIENTATION_90"
    by (simp_all add: max_x_cases max_y_cases)
  have t: "translate DISPLAY_ORIENTATION_90 300 400 (-5) 20 =
        Some \<lparr>col_start = 0, col_end = 20, row_start = 300, row_end = 319\<rparr>"
    by (simp add: translate_def clamp_area_eq max_x_cases max_y_cases)
       (simp add: to_physical_def orientation_defs)
  have e: "current_orientation initial_globals = DISPLAY_ORIENTATION_90
           \<and> (\<forall>h c p. io_result transport_ok h (TxParam c p) = ESP_OK)"
    by (simp add: initial_globals_def transport_ok_def)
  from clamp_window_in_bounds [OF v h] obtain w where
    w: "translate DISPLAY_ORIENTATION_90 300 400 (-5) 20 = Some w"
      "col_start w \<le> col_end w" "row_start w \<le> row_end w"
      "uint (col_end w) \<le> 169" "uint (row_end w) \<le> 319"
      "inverse_window DISPLAY_ORIENTATION_90 (window_ints w) =
         (max 300 0, min 400 (max_x DISPLAY_ORIENTATION_90), max (-5) 0,
          min 20 (max_y DISPLAY_ORIENTATION_90))"
    and ok: "\<forall>ev s. current_orientation s = DISPLAY_ORIENTATION_90
                  \<and> (\<forall>h c p. io_result ev h (TxParam c p) = ESP_OK) \<longrightarrow>
                fst (set_draw_area ev 300 400 (-5) 20 s) = ESP_OK"
    by blast
  from ok e have r: "fst (set_draw_area transport_ok 300 400 (-5) 20 initial_globals) = ESP_OK"
    by blast
  from w have "inverse_window DISPLAY_ORIENTATION_90 (window_ints w) = (300, 319, 0, 20)"
    by (simp add: max_x_cases max_y_cases)
  with w v h t r show ?thesis
    by simp
qed

subsection \<open>The command sequence of \<^verbatim>\<open>set_draw_area\<close>\<close>

lemma ff_mask: "(0xFF :: 16 word) = mask 8"
  by (simp add: mask_eq_exp_minus_1)

lemma lo_byte: "uint (ucast (a AND 0xFF) :: 8 word) = uint (a :: 16 word) mod 256"
  unfolding ff_mask take_bit_eq_mask [symmetric]
  by (simp add: unsigned_ucast_eq unsigned_take_bit_eq take_bit_eq_mod [where ?'a = int])

lemma hi_byte: "uint (ucast (drop_bit 8 a AND 0xFF) :: 8 word) = uint (a :: 16 word) div 256"
proof -
  have "uint a < 65536" using uint_lt2p [of a] by simp
  moreover have "0 \<le> uint a" by simp
  ultimately have "uint a div 256 < 256" "0 \<le> uint a div 256" by linarith+
  then show ?thesis
    unfolding ff_mask take_bit_eq_mask [symmetric]
    by (simp add: unsigned_ucast_eq unsigned_take_bit_eq unsigned_drop_bit_eq
        take_bit_eq_mod [where ?'a = int] drop_bit_eq_div [where ?'a = int])
qed

lemma be16:
  "256 * uint (ucast (drop_bit 8 a AND 0xFF) :: 8 word) + uint (ucast (a AND 0xFF) :: 8 word)
     = uint (a :: 16 word)"
  by (subst hi_byte, subst lo_byte, rule mult_div_mod_eq)

lemma set_draw_area_invalid:
  "translate (current_orientation s) x_start x_end y_start y_end = None \<Longrightarrow>
   set_draw_area ev x_start x_end y_start y_end s = (ESP_ERR_INVALID_STATE, s)"
  by (simp add: set_draw_area_def)

lemma set_draw_area_steps:
  assumes "translate (current_orientation s) x_start x_end y_start y_end = Some w"
  shows "set_draw_area ev x_start x_end y_start y_end s =
    (if io_result ev (trace s) (caset w) \<noteq> ESP_OK then
       (io_result ev (trace s) (caset w), s\<lparr>trace := trace s @ [caset w]\<rparr>)
     else if io_result ev (trace s @ [caset w]) (raset w) \<noteq> ESP_OK then
       (io_result ev (trace s @ [caset w]) (raset w), s\<lparr>trace := trace s @ [caset w, raset w]\<rparr>)
     else
       (io_result ev (trace s @ [caset w, raset w]) ramwr,
        s\<lparr>trace := trace s @ [caset w, raset w, ramwr]\<rparr>))"
  using assms
  by (simp add: set_draw_area_def call_def emit_def caset_def raset_def ramwr_def)

lemma translate_valid:
  "valid_orientation ori \<Longrightarrow> \<exists>w. translate ori x_start x_end y_start y_end = Some w"
  by (auto simp: valid_orientation_def translate_def to_physical_def orientation_defs
      split: prod.splits)

lemma translate_invalid:
  "\<not> valid_orientation ori \<Longrightarrow> translate ori x_start x_end y_start y_end = None"
  by (auto simp: valid_orientation_def translate_def to_physical_def split: prod.splits)

lemma set_draw_area_frame:
  "current_orientation (snd (set_draw_area ev x_start x_end y_start y_end s)) = current_orientation s"
  "lvgl_disp (snd (set_draw_area ev x_start x_end y_start y_end s)) = lvgl_disp s"
  by (cases "translate (current_orientation s) x_start x_end y_start y_end";
      simp add: set_draw_area_invalid set_draw_area_steps)+

lemma set_draw_area_trace:
  "\<exists>evs. trace (snd (set_draw_area ev x_start x_end y_start y_end s)) = trace s @ evs
         \<and> FlushReady \<notin> set evs"
proof (cases "translate (current_orientation s) x_start x_end y_start y_end")
  case None
  then show ?thesis by (simp add: set_draw_area_invalid)
next
  case (Some w)
  then show ?thesis
    by (simp add: set_draw_area_steps caset_def raset_def ramwr_def)
qed

lemma window_params_be16:
  "length (window_params a b) = 4
   \<and> 256 * uint (window_params a b ! 0) + uint (window_params a b ! 1) = uint a
   \<and> 256 * uint (window_params a b ! 2) + uint (window_params a b ! 3) = uint b"
  using be16 [of a] be16 [of b] by (simp add: window_params_def numeral_2_eq_2 numeral_3_eq_3)

text \<open>
  C7. \<^verbatim>\<open>set_draw_area\<close> issues the column window (opcode \<open>0x2A\<close>), then the row window
  (\<open>0x2B\<close>), then the memory write (\<open>0x2C\<close>, no parameters); the first command that fails
  ends the sequence and its error is returned. A window command carries four bytes: the
  high and low byte of the start, then the high and low byte of the end.
\<close>

theorem set_draw_area_command_sequence:
  assumes "translate (current_orientation s) x_start x_end y_start y_end = Some w"
  shows "set_draw_area ev x_start x_end y_start y_end s =
    (if io_result ev (trace s) (caset w) \<noteq> ESP_OK then
       (io_result ev (trace s) (caset w), s\<lparr>trace := trace s @ [caset w]\<rparr>)
     else if io_result ev (trace s @ [caset w]) (raset w) \<noteq> ESP_OK then
       (io_result ev (trace s @ [caset w]) (raset w), s\<lparr>trace := trace s @ [caset w, raset w]\<rparr>)
     else
       (io_result ev (trace s @ [caset w, raset w]) ramwr,
        s\<lparr>trace := trace s @ [caset w, raset w, ramwr]\<rparr>))
   \<and> (fst (set_draw_area ev x_start x_end y_start y_end s) = ESP_OK \<longrightarrow>
        snd (set_draw_area ev x_start x_end y_start y_end s) =
          s\<lparr>trace := trace s @ [caset w, raset w, ramwr]\<rparr>)
   \<and> caset w = TxParam 0x2A (window_params (col_start w) (col_end w))
   \<and> raset w = TxParam 0x2B (window_params (row_start w) (row_end w))
   \<and> ramwr = TxParam 0x2C []
   \<and> (\<forall>a b. length (window_params a b) = 4
         \<and> 256 * uint (window_params a b ! 0) + uint (window_params a b ! 1) = uint a
         \<and> 256 * uint (window_params a b ! 2) + uint (window_params a b ! 3) = uint b)"
proof -
  note st = set_draw_area_steps [OF assms, of ev]
  have ok: "fst (set_draw_area ev x_start x_end y_start y_end s) = ESP_OK \<longrightarrow>
        snd (set_draw_area ev x_start x_end y_start y_end s) =
          s\<lparr>trace := trace s @ [caset w, raset w, ramwr]\<rparr>"
    unfolding st by simp
  have enc: "\<forall>a b. length (window_params a b) = 4
         \<and> 256 * uint (window_params a b ! 0) + uint (window_params a b ! 1) = uint a
         \<and> 256 * uint (window_params a b ! 2) + uint (window_params a b ! 3) = uint b"
    using window_params_be16 by blast
  have ops: "caset w = TxParam 0x2A (window_params (col_start w) (col_end w))"
    "raset w = TxParam 0x2B (window_params (row_start w) (row_end w))"
    "ramwr = TxParam 0x2C []"
    by (simp_all add: caset_def raset_def ramwr_def)
  from st ok enc ops show ?thesis by blast
qed

theorem set_draw_area_command_sequence_witness:
  "translate (current_orientation initial_globals) 300 319 30 40 =
     Some \<lparr>col_start = 30, col_end = 40, row_start = 300, row_end = 319\<rparr>
   \<and> set_draw_area transport_ok 300 319 30 40 initial_globals =
       (ESP_OK, initial_globals\<lparr>trace :=
          [TxParam 0x2A [0, 30, 0, 40], TxParam 0x2B [1, 44, 1, 63], TxParam 0x2C []]\<rparr>)"
proof -
  have t: "translate (current_orientation initial_globals) 300 319 30 40 =
     Some \<lparr>col_start = 30, col_end = 40, row_start = 300, row_end = 319\<rparr>"
    by (simp add: initial_globals_def translate_def clamp_area_eq max_x_cases max_y_cases)
       (simp add: to_physical_def orientation_defs)
  from set_draw_area_command_sequence [OF t, of transport_ok] t show ?thesis
    by (simp add: transport_ok_def initial_globals_def window_params_def)
qed

subsection \<open>The flush callback\<close>

lemma clear_screen_frame:
  "current_orientation (snd (clear_screen ev color s)) = current_orientation s"
  "lvgl_disp (snd (clear_screen ev color s)) = lvgl_disp s"
  by (simp_all add: clear_screen_def Let_def case_prod_beta call_def emit_def set_draw_area_frame)

lemma lvgl_flush_cb_frame:
  "current_orientation (lvgl_flush_cb ev area color_p s) = current_orientation s"
  "lvgl_disp (lvgl_flush_cb ev area color_p s) = lvgl_disp s"
  by (simp_all add: lvgl_flush_cb_def Let_def case_prod_beta call_def emit_def set_draw_area_frame)

text \<open>
  C8. \<^verbatim>\<open>lvgl_flush_cb\<close> calls \<^verbatim>\<open>lv_disp_flush_ready\<close> exactly when both
  \<^verbatim>\<open>set_draw_area\<close> and \<^verbatim>\<open>esp_lcd_panel_draw_bitmap\<close> returned \<^verbatim>\<open>ESP_OK\<close>, once, and
  after the pixel buffer and the end of the colour transfer; when \<^verbatim>\<open>set_draw_area\<close> failed
  nothing more is sent.
\<close>

theorem lvgl_flush_cb_completion:
  "let r = set_draw_area ev (x1 area) (x2 area) (y1 area) (y2 area) s;
       d = DrawBitmap (x1 area) (y1 area) (x2 area + 1) (y2 area + 1) color_p;
       ok = (fst r = ESP_OK \<and> io_result ev (trace (snd r)) d = ESP_OK);
       s' = lvgl_flush_cb ev area color_p s
   in (fst r \<noteq> ESP_OK \<longrightarrow> s' = snd r)
    \<and> (fst r = ESP_OK \<and> \<not> ok \<longrightarrow> s' = (snd r)\<lparr>trace := trace (snd r) @ [d]\<rparr>)
    \<and> (ok \<longrightarrow> s' = (snd r)\<lparr>trace := trace (snd r) @ [d, TxColorEnd, FlushReady]\<rparr>)
    \<and> (\<exists>evs. trace s' = trace s @ evs \<and> (FlushReady \<in> set evs \<longleftrightarrow> ok)
            \<and> count_list evs FlushReady = (if ok then 1 else 0))"
proof -
  define r where "r = set_draw_area ev (x1 area) (x2 area) (y1 area) (y2 area) s"
  define d where "d = DrawBitmap (x1 area) (y1 area) (x2 area + 1) (y2 area + 1) color_p"
  define fin where "fin \<longleftrightarrow> fst r = ESP_OK \<and> io_result ev (trace (snd r)) d = ESP_OK"
  define s' where "s' = lvgl_flush_cb ev area color_p s"
  obtain evs where evs: "trace (snd r) = trace s @ evs" "FlushReady \<notin> set evs"
    using set_draw_area_trace [of ev "x1 area" "x2 area" "y1 area" "y2 area" s]
    unfolding r_def by blast
  have s'_eq: "s' = (if fst r \<noteq> ESP_OK then snd r
                    else if io_result ev (trace (snd r)) d \<noteq> ESP_OK
                         then (snd r)\<lparr>trace := trace (snd r) @ [d]\<rparr>
                         else (snd r)\<lparr>trace := trace (snd r) @ [d, TxColorEnd, FlushReady]\<rparr>)"
    by (simp add: s'_def lvgl_flush_cb_def Let_def case_prod_beta call_def emit_def r_def d_def)
  have a: "fst r \<noteq> ESP_OK \<longrightarrow> s' = snd r"
    by (simp add: s'_eq)
  have b: "fst r = ESP_OK \<and> \<not> fin \<longrightarrow> s' = (snd r)\<lparr>trace := trace (snd r) @ [d]\<rparr>"
    by (simp add: s'_eq fin_def)
  have c: "fin \<longrightarrow> s' = (snd r)\<lparr>trace := trace (snd r) @ [d, TxColorEnd, FlushReady]\<rparr>"
    by (simp add: s'_eq fin_def)
  have cnt: "count_list evs FlushReady = 0"
    using evs(2) by (simp add: count_list_0_iff)
  have e: "\<exists>evs. trace s' = trace s @ evs \<and> (FlushReady \<in> set evs \<longleftrightarrow> fin)
            \<and> count_list evs FlushReady = (if fin then 1 else 0)"
  proof (cases "fst r \<noteq> ESP_OK")
    case True
    then have "trace s' = trace s @ evs" "\<not> fin"
      using a evs by (simp_all add: fin_def)
    with evs(2) cnt show ?thesis by auto
  next
    case ok: False
    show ?thesis
    proof (cases fin)
      case True
      then have "trace s' = trace s @ (evs @ [d, TxColorEnd, FlushReady])"
        using c evs by simp
      moreover have "count_list (evs @ [d, TxColorEnd, FlushReady]) FlushReady = 1"
        using cnt by (simp add: d_def)
      ultimately show ?thesis using True by (intro exI [of _ "evs @ [d, TxColorEnd, FlushReady]"]) simp
    next
      case False
      then have "trace s' = trace s @ (evs @ [d])"
        using b ok evs by simp
      moreover have "count_list (evs @ [d]) FlushReady = 0" "FlushReady \<notin> set (evs @ [d])"
        using cnt evs(2) by (simp_all add: d_def)
      ultimately show ?thesis using False by (intro exI [of _ "evs @ [d]"]) simp
    qed
  qed
  from a b c e show ?thesis
    unfolding Let_def r_def [symmetric] d_def [symmetric] fin_def [symmetric] s'_def [symmetric]
    by blast
qed

theorem lvgl_flush_cb_completion_witness:
  "set_draw_area transport_ok 0 3 0 2 initial_globals =
     (ESP_OK, initial_globals\<lparr>trace :=
        [TxParam 0x2A [0, 0, 0, 2], TxParam 0x2B [0, 0, 0, 3], TxParam 0x2C []]\<rparr>)
   \<and> lvgl_flush_cb transport_ok \<lparr>x1 = 0, y1 = 0, x2 = 3, y2 = 2\<rparr> [0xF800, 0x001F] initial_globals =
       initial_globals\<lparr>trace :=
        [TxParam 0x2A [0, 0, 0, 2], TxParam 0x2B [0, 0, 0, 3], TxParam 0x2C [],
         DrawBitmap 0 0 4 3 [0xF800, 0x001F], TxColorEnd, FlushReady]\<rparr>
   \<and> set_draw_area raset_fails 0 3 0 2 initial_globals =
     (ESP_FAIL, initial_globals\<lparr>trace := [TxParam 0x2A [0, 0, 0, 2], TxParam 0x2B [0, 0, 0, 3]]\<rparr>)
   \<and> ESP_FAIL \<noteq> ESP_OK
   \<and> lvgl_flush_cb raset_fails \<lparr>x1 = 0, y1 = 0, x2 = 3, y2 = 2\<rparr> [0xF800, 0x001F] initial_globals =
       initial_globals\<lparr>trace := [TxParam 0x2A [0, 0, 0, 2], TxParam 0x2B [0, 0, 0, 3]]\<rparr>"
proof -
  have t: "translate (current_orientation initial_globals) 0 3 0 2 =
     Some \<lparr>col_start = 0, col_end = 2, row_start = 0, row_end = 3\<rparr>"
    by (simp add: initial_globals_def translate_def clamp_area_eq max_x_cases max_y_cases)
       (simp add: to_physical_def orientation_defs)
  have r1: "set_draw_area transport_ok 0 3 0 2 initial_globals =
     (ESP_OK, initial_globals\<lparr>trace :=
        [TxParam 0x2A [0, 0, 0, 2], TxParam 0x2B [0, 0, 0, 3], TxParam 0x2C []]\<rparr>)"
    unfolding set_draw_area_steps [OF t]
    by (simp add: transport_ok_def caset_def raset_def ramwr_def window_params_def
        initial_globals_def)
  have r2: "set_draw_area raset_fails 0 3 0 2 initial_globals =
     (ESP_FAIL, initial_globals\<lparr>trace := [TxParam 0x2A [0, 0, 0, 2], TxParam 0x2B [0, 0, 0, 3]]\<rparr>)"
    unfolding set_draw_area_steps [OF t]
    by (simp add: raset_fails_def caset_def raset_def ESP_FAIL_def ESP_OK_def window_params_def
        initial_globals_def)
  have f: "ESP_FAIL \<noteq> ESP_OK"
    by (simp add: ESP_FAIL_def ESP_OK_def)
  show ?thesis
    using lvgl_flush_cb_completion
            [of transport_ok "\<lparr>x1 = 0, y1 = 0, x2 = 3, y2 = 2\<rparr>" initial_globals "[0xF800, 0x001F]"]
          lvgl_flush_cb_completion
            [of raset_fails "\<lparr>x1 = 0, y1 = 0, x2 = 3, y2 = 2\<rparr>" initial_globals "[0xF800, 0x001F]"]
          f
    by (simp add: r1 r2 Let_def) (simp add: transport_ok_def initial_globals_def)
qed

subsection \<open>Orientation changes\<close>

lemma set_display_orientation_invalid:
  "orientation_params orientation = None \<Longrightarrow>
   set_display_orientation ev orientation s = (ESP_ERR_INVALID_ARG, s)"
  by (simp add: set_display_orientation_def)

lemma orientation_params_None:
  "orientation_params orientation = None \<longleftrightarrow> \<not> valid_orientation orientation"
  by (simp add: orientation_params_def valid_orientation_def)

lemma set_display_orientation_steps:
  assumes "orientation_params orientation = Some (madctl, hres, vres, x_gap, y_gap)"
  shows "set_display_orientation ev orientation s =
    (if io_result ev (trace s) (TxParam 0x36 [madctl]) \<noteq> ESP_OK then
       (io_result ev (trace s) (TxParam 0x36 [madctl]), s\<lparr>trace := trace s @ [TxParam 0x36 [madctl]]\<rparr>)
     else if io_result ev (trace s @ [TxParam 0x36 [madctl]]) (SetGap x_gap y_gap) \<noteq> ESP_OK then
       (io_result ev (trace s @ [TxParam 0x36 [madctl]]) (SetGap x_gap y_gap),
        s\<lparr>trace := trace s @ [TxParam 0x36 [madctl], SetGap x_gap y_gap]\<rparr>)
     else
       clear_screen ev 0x0000
         (switch_state orientation hres vres
            (s\<lparr>trace := trace s @ [TxParam 0x36 [madctl], SetGap x_gap y_gap]\<rparr>)))"
  using assms
  by (simp add: set_display_orientation_def call_def emit_def switch_state_def Let_def)

lemma switch_state_fields:
  "current_orientation (switch_state orientation hres vres s) = orientation"
  "lvgl_disp (switch_state orientation hres vres s) =
     map_option (\<lambda>drv. drv\<lparr>hor_res := hres, ver_res := vres\<rparr>) (lvgl_disp s)"
  by (simp_all add: switch_state_def emit_def Let_def split: option.splits)

lemma orientation_params_cases:
  "orientation_params DISPLAY_ORIENTATION_0 = Some (0x08, 170, 320, 35, 0)"
  "orientation_params DISPLAY_ORIENTATION_90 = Some (0x68, 320, 170, 0, 35)"
  "orientation_params DISPLAY_ORIENTATION_180 = Some (0xC8, 170, 320, 35, 0)"
  "orientation_params DISPLAY_ORIENTATION_270 = Some (0xA8, 320, 170, 0, 35)"
  by (simp_all add: orientation_params_def orientation_defs lcd_defs)

text \<open>
  C4, as stated, fails: the clear of the screen comes after the state update, so when the
  allocation in \<^verbatim>\<open>clear_screen\<close> fails, \<^verbatim>\<open>set_display_orientation\<close> returns
  \<^verbatim>\<open>ESP_ERR_NO_MEM\<close> with the orientation and the LVGL resolution already switched.
\<close>

theorem set_display_orientation_failure_counterexample:
  "set_display_orientation malloc_fails DISPLAY_ORIENTATION_0 (init_lvgl initial_globals) =
     (ESP_ERR_NO_MEM,
      \<lparr>current_orientation = DISPLAY_ORIENTATION_0,
       lvgl_disp = Some \<lparr>hor_res = 170, ver_res = 320\<rparr>,
       trace = [TxParam 0x36 [0x08], SetGap 35 0, LvSetRotation 0, Malloc 108800]\<rparr>)
   \<and> ESP_ERR_NO_MEM \<noteq> ESP_OK
   \<and> current_orientation (init_lvgl initial_globals) = DISPLAY_ORIENTATION_90
   \<and> lvgl_disp (init_lvgl initial_globals) = Some \<lparr>hor_res = 320, ver_res = 170\<rparr>
   \<and> DISPLAY_ORIENTATION_0 \<noteq> DISPLAY_ORIENTATION_90"
  unfolding set_display_orientation_steps [OF orientation_params_cases(1)]
  by (simp add: malloc_fails_def init_lvgl_def initial_globals_def switch_state_def
      clear_screen_def emit_def Let_def esp_defs lcd_defs orientation_defs)

text \<open>
  C4, amended. When \<^verbatim>\<open>set_display_orientation\<close> fails because the orientation is not
  one of the four or because the MADCTL write or the gap update failed, the orientation and
  the LVGL resolution are unchanged; when both commands succeeded and the clear failed,
  they are those of the requested orientation.
\<close>

theorem set_display_orientation_failure_state:
  assumes "set_display_orientation ev orientation s = (ret, s')" and "ret \<noteq> ESP_OK"
  shows "case orientation_params orientation of
           None \<Rightarrow> ret = ESP_ERR_INVALID_ARG \<and> s' = s
         | Some (madctl, hres, vres, x_gap, y_gap) \<Rightarrow>
             if io_result ev (trace s) (TxParam 0x36 [madctl]) \<noteq> ESP_OK
                \<or> io_result ev (trace s @ [TxParam 0x36 [madctl]]) (SetGap x_gap y_gap) \<noteq> ESP_OK
             then current_orientation s' = current_orientation s \<and> lvgl_disp s' = lvgl_disp s
             else current_orientation s' = orientation
                \<and> lvgl_disp s' = map_option (\<lambda>drv. drv\<lparr>hor_res := hres, ver_res := vres\<rparr>) (lvgl_disp s)"
proof (cases "orientation_params orientation")
  case None
  with assms show ?thesis by (simp add: set_display_orientation_invalid)
next
  case (Some p)
  obtain madctl hres vres x_gap y_gap where p: "p = (madctl, hres, vres, x_gap, y_gap)"
    by (cases p) auto
  note st = set_display_orientation_steps [OF Some [unfolded p], of ev s]
  show ?thesis
  proof (cases "io_result ev (trace s) (TxParam 0x36 [madctl]) \<noteq> ESP_OK
                \<or> io_result ev (trace s @ [TxParam 0x36 [madctl]]) (SetGap x_gap y_gap) \<noteq> ESP_OK")
    case True
    with assms(1) st have "current_orientation s' = current_orientation s \<and> lvgl_disp s' = lvgl_disp s"
      by (auto split: if_splits)
    with True Some p show ?thesis by simp
  next
    case False
    with assms(1) st have "s' = snd (clear_screen ev 0x0000
         (switch_state orientation hres vres
            (s\<lparr>trace := trace s @ [TxParam 0x36 [madctl], SetGap x_gap y_gap]\<rparr>)))"
      by (auto split: if_splits)
    then have "current_orientation s' = orientation
                \<and> lvgl_disp s' = map_option (\<lambda>drv. drv\<lparr>hor_res := hres, ver_res := vres\<rparr>) (lvgl_disp s)"
      by (simp add: clear_screen_frame switch_state_fields)
    with False Some p show ?thesis by simp
  qed
qed

theorem set_display_orientation_failure_state_witness:
  "set_display_orientation gap_fails DISPLAY_ORIENTATION_0 (init_lvgl initial_globals) =
     (ESP_FAIL, (init_lvgl initial_globals)\<lparr>trace := [TxParam 0x36 [0x08], SetGap 35 0]\<rparr>)
   \<and> ESP_FAIL \<noteq> ESP_OK
   \<and> current_orientation ((init_lvgl initial_globals)\<lparr>trace := [TxParam 0x36 [0x08], SetGap 35 0]\<rparr>)
        = current_orientation (init_lvgl initial_globals)
   \<and> lvgl_disp ((init_lvgl initial_globals)\<lparr>trace := [TxParam 0x36 [0x08], SetGap 35 0]\<rparr>)
        = lvgl_disp (init_lvgl initial_globals)"
proof -
  have r: "set_display_orientation gap_fails DISPLAY_ORIENTATION_0 (init_lvgl initial_globals) =
     (ESP_FAIL, (init_lvgl initial_globals)\<lparr>trace := [TxParam 0x36 [0x08], SetGap 35 0]\<rparr>)"
    unfolding set_display_orientation_steps [OF orientation_params_cases(1)]
    by (simp add: gap_fails_def init_lvgl_def initial_globals_def ESP_FAIL_def ESP_OK_def)
  have f: "ESP_FAIL \<noteq> ESP_OK"
    by (simp add: ESP_FAIL_def ESP_OK_def)
  from set_display_orientation_failure_state [OF r f] r f show ?thesis
    by (simp add: orientation_params_cases gap_fails_def init_lvgl_def initial_globals_def)
qed

text \<open>
  C5. The table of \<^verbatim>\<open>set_display_orientation\<close>: logical resolution 170 by 320 with
  gaps \<open>(35, 0)\<close> at 0 and 180 degrees, 320 by 170 with gaps \<open>(0, 35)\<close> at 90 and 270
  degrees; the clamping bounds of \<^verbatim>\<open>set_draw_area\<close> agree with it.
\<close>

theorem orientation_resolution_table:
  "orientation_params DISPLAY_ORIENTATION_0 = Some (0x08, 170, 320, 35, 0)
   \<and> orientation_params DISPLAY_ORIENTATION_90 = Some (0x68, 320, 170, 0, 35)
   \<and> orientation_params DISPLAY_ORIENTATION_180 = Some (0xC8, 170, 320, 35, 0)
   \<and> orientation_params DISPLAY_ORIENTATION_270 = Some (0xA8, 320, 170, 0, 35)
   \<and> LCD_H_RES = 170 \<and> LCD_V_RES = 320
   \<and> (max_x DISPLAY_ORIENTATION_0 + 1, max_y DISPLAY_ORIENTATION_0 + 1) = (LCD_H_RES, LCD_V_RES)
   \<and> (max_x DISPLAY_ORIENTATION_90 + 1, max_y DISPLAY_ORIENTATION_90 + 1) = (LCD_V_RES, LCD_H_RES)
   \<and> (max_x DISPLAY_ORIENTATION_180 + 1, max_y DISPLAY_ORIENTATION_180 + 1) = (LCD_H_RES, LCD_V_RES)
   \<and> (max_x DISPLAY_ORIENTATION_270 + 1, max_y DISPLAY_ORIENTATION_270 + 1) = (LCD_V_RES, LCD_H_RES)"
  by (simp add: orientation_params_cases max_x_cases max_y_cases lcd_defs)

text \<open>
  C6. An orientation outside the four enumerators is rejected with
  \<^verbatim>\<open>ESP_ERR_INVALID_ARG\<close>; the state, and with it the trace of commands, is untouched.
\<close>

theorem invalid_orientation_rejected:
  assumes "orientation \<notin> {DISPLAY_ORIENTATION_0, DISPLAY_ORIENTATION_90,
                           DISPLAY_ORIENTATION_180, DISPLAY_ORIENTATION_270}"
  shows "set_display_orientation ev orientation s = (ESP_ERR_INVALID_ARG, s)
       \<and> ESP_ERR_INVALID_ARG \<noteq> ESP_OK"
proof -
  from assms have "orientation_params orientation = None"
    by (simp add: orientation_params_def)
  then show ?thesis
    by (simp add: set_display_orientation_invalid esp_defs)
qed

theorem invalid_orientation_rejected_witness:
  "(4::int) \<notin> {DISPLAY_ORIENTATION_0, DISPLAY_ORIENTATION_90,
                 DISPLAY_ORIENTATION_180, DISPLAY_ORIENTATION_270}
   \<and> set_display_orientation transport_ok 4 initial_globals = (ESP_ERR_INVALID_ARG, initial_globals)
   \<and> trace (snd (set_display_orientation transport_ok 4 initial_globals)) = []
   \<and> current_orientation (snd (set_display_orientation transport_ok 4 initial_globals))
        = DISPLAY_ORIENTATION_90"
proof -
  have h: "(4::int) \<notin> {DISPLAY_ORIENTATION_0, DISPLAY_ORIENTATION_90,
                 DISPLAY_ORIENTATION_180, DISPLAY_ORIENTATION_270}"
    by (simp add: orientation_defs)
  from invalid_orientation_rejected [OF h, of transport_ok initial_globals] h show ?thesis
    by (simp add: initial_globals_def)
qed

lemma set_display_orientation_same:
  "current_orientation s = orientation \<Longrightarrow>
   current_orientation (snd (set_display_orientation ev orientation s)) = orientation"
proof (cases "orientation_params orientation")
  case None
  assume "current_orientation s = orientation"
  with None show ?thesis by (simp add: set_display_orientation_invalid)
next
  case (Some p)
  assume c: "current_orientation s = orientation"
  obtain madctl hres vres x_gap y_gap where p: "p = (madctl, hres, vres, x_gap, y_gap)"
    by (cases p) auto
  show ?thesis
    unfolding set_display_orientation_steps [OF Some [unfolded p]]
    using c by (simp add: clear_screen_frame switch_state_fields)
qed

lemma set_display_orientation_no_driver:
  "lvgl_disp s = None \<Longrightarrow> lvgl_disp (snd (set_display_orientation ev orientation s)) = None"
proof (cases "orientation_params orientation")
  case None
  assume "lvgl_disp s = None"
  with None show ?thesis by (simp add: set_display_orientation_invalid)
next
  case (Some p)
  assume c: "lvgl_disp s = None"
  obtain madctl hres vres x_gap y_gap where p: "p = (madctl, hres, vres, x_gap, y_gap)"
    by (cases p) auto
  show ?thesis
    unfolding set_display_orientation_steps [OF Some [unfolded p]]
    using c by (simp add: clear_screen_frame switch_state_fields)
qed

lemma set_display_orientation_valid:
  assumes "valid_orientation (current_orientation s)"
  shows "valid_orientation (current_orientation (snd (set_display_orientation ev orientation s)))"
proof (cases "orientation_params orientation")
  case None
  with assms show ?thesis by (simp add: set_display_orientation_invalid)
next
  case (Some p)
  obtain madctl hres vres x_gap y_gap where p: "p = (madctl, hres, vres, x_gap, y_gap)"
    by (cases p) auto
  from Some have "valid_orientation orientation"
    using orientation_params_None [of orientation] by simp
  with assms show ?thesis
    unfolding set_display_orientation_steps [OF Some [unfolded p]]
    by (simp add: clear_screen_frame switch_state_fields)
qed

subsection \<open>Start-up and reachable states\<close>

lemma send_init_cmds_frame:
  "current_orientation (send_init_cmds ev cs s) = current_orientation s
   \<and> lvgl_disp (send_init_cmds ev cs s) = lvgl_disp s"
  by (induction cs arbitrary: s) (simp_all add: call_def emit_def Let_def)

lemma esp_error_check_frame:
  "esp_error_check ev fs s = Some s' \<Longrightarrow>
   current_orientation s' = current_orientation s \<and> lvgl_disp s' = lvgl_disp s"
  by (induction fs arbitrary: s) (auto simp: call_def emit_def Let_def split: if_splits)

lemma esp_error_check_total:
  "\<forall>h f. io_result ev h (HwCall f) = ESP_OK \<Longrightarrow> \<exists>s'. esp_error_check ev fs s = Some s'"
  by (induction fs arbitrary: s) (simp_all add: call_def)

lemma init_display_frame:
  assumes "init_display ev s = Some s'"
    and "current_orientation s = DISPLAY_ORIENTATION_90" and "lvgl_disp s = None"
  shows "current_orientation s' = DISPLAY_ORIENTATION_90 \<and> lvgl_disp s' = None"
proof -
  from assms(1) obtain a b c where
    a: "esp_error_check ev
            [''gpio_config(rd)'', ''gpio_set_level(LCD_PIN_RD)'',
             ''gpio_config(bk)'', ''gpio_set_level(LCD_PIN_BK_LIGHT)''] s = Some a"
    and b: "esp_error_check ev
            [''esp_lcd_new_i80_bus'', ''esp_lcd_new_panel_io_i80'',
             ''esp_lcd_new_panel_st7789'', ''esp_lcd_panel_reset''] (emit (Delay 100) a) = Some b"
    and c: "esp_error_check ev [''esp_lcd_panel_disp_on_off'']
            (send_init_cmds ev lcd_st7789v (emit (Delay 100) b)) = Some c"
    and s': "s' = snd (set_display_orientation ev DISPLAY_ORIENTATION_90 c)"
    unfolding init_display_def by (auto split: option.splits)
  have "current_orientation a = DISPLAY_ORIENTATION_90 \<and> lvgl_disp a = None"
    using esp_error_check_frame [OF a] assms(2,3) by simp
  then have "current_orientation b = DISPLAY_ORIENTATION_90 \<and> lvgl_disp b = None"
    using esp_error_check_frame [OF b] by (simp add: emit_def)
  then have "current_orientation c = DISPLAY_ORIENTATION_90 \<and> lvgl_disp c = None"
    using esp_error_check_frame [OF c] send_init_cmds_frame [of ev lcd_st7789v "emit (Delay 100) b"]
    by (simp add: emit_def)
  then show ?thesis
    unfolding s' by (simp add: set_display_orientation_same set_display_orientation_no_driver)
qed

lemma init_display_total:
  assumes "\<forall>h f. io_result ev h (HwCall f) = ESP_OK"
  shows "\<exists>s'. init_display ev s = Some s'"
proof -
  obtain a where a: "esp_error_check ev
            [''gpio_config(rd)'', ''gpio_set_level(LCD_PIN_RD)'',
             ''gpio_config(bk)'', ''gpio_set_level(LCD_PIN_BK_LIGHT)''] s = Some a"
    using esp_error_check_total [OF assms] by blast
  obtain b where b: "esp_error_check ev
            [''esp_lcd_new_i80_bus'', ''esp_lcd_new_panel_io_i80'',
             ''esp_lcd_new_panel_st7789'', ''esp_lcd_panel_reset''] (emit (Delay 100) a) = Some b"
    using esp_error_check_total [OF assms] by blast
  obtain c where c: "esp_error_check ev [''esp_lcd_panel_disp_on_off'']
            (send_init_cmds ev lcd_st7789v (emit (Delay 100) b)) = Some c"
    using esp_error_check_total [OF assms] by blast
  show ?thesis
    unfolding init_display_def by (simp only: a b c option.case) simp
qed

text \<open>
  C10. The static initial orientation is 90 degrees, \<^verbatim>\<open>init_display\<close> leaves it at 90
  degrees whatever the transport answers, and \<^verbatim>\<open>init_lvgl\<close> registers the resolution
  320 by 170; start-up completes when the checked bring-up calls succeed.
\<close>

theorem startup_orientation_90:
  "current_orientation initial_globals = DISPLAY_ORIENTATION_90
   \<and> (\<forall>s. init_display ev initial_globals = Some s \<longrightarrow>
          current_orientation s = DISPLAY_ORIENTATION_90 \<and> lvgl_disp s = None)
   \<and> (\<forall>s. startup ev = Some s \<longrightarrow>
          current_orientation s = DISPLAY_ORIENTATION_90
          \<and> lvgl_disp s = Some \<lparr>hor_res = 320, ver_res = 170\<rparr>)
   \<and> ((\<forall>h f. io_result ev h (HwCall f) = ESP_OK) \<longrightarrow> startup ev \<noteq> None)
   \<and> (max_x DISPLAY_ORIENTATION_90 + 1, max_y DISPLAY_ORIENTATION_90 + 1) = (320, 170)"
proof -
  have i: "current_orientation initial_globals = DISPLAY_ORIENTATION_90"
    "lvgl_disp initial_globals = None"
    by (simp_all add: initial_globals_def)
  have d: "\<forall>s. init_display ev initial_globals = Some s \<longrightarrow>
          current_orientation s = DISPLAY_ORIENTATION_90 \<and> lvgl_disp s = None"
    using init_display_frame [OF _ i] by blast
  then have u: "\<forall>s. startup ev = Some s \<longrightarrow>
          current_orientation s = DISPLAY_ORIENTATION_90
          \<and> lvgl_disp s = Some \<lparr>hor_res = 320, ver_res = 170\<rparr>"
    by (auto simp: startup_def init_lvgl_def lcd_defs)
  have t: "(\<forall>h f. io_result ev h (HwCall f) = ESP_OK) \<longrightarrow> startup ev \<noteq> None"
    using init_display_total [of ev initial_globals] by (auto simp: startup_def)
  have m: "(max_x DISPLAY_ORIENTATION_90 + 1, max_y DISPLAY_ORIENTATION_90 + 1) = (320, 170)"
    by (simp add: max_x_cases max_y_cases)
  from i(1) d u t m show ?thesis by blast
qed

theorem startup_orientation_90_witness:
  "(\<forall>h f. io_result malloc_fails h (HwCall f) = ESP_OK)
   \<and> (\<exists>s. startup malloc_fails = Some s
          \<and> current_orientation s = DISPLAY_ORIENTATION_90
          \<and> lvgl_disp s = Some \<lparr>hor_res = 320, ver_res = 170\<rparr>)
   \<and> map_option (\<lambda>s. drop 31 (trace s)) (startup malloc_fails) =
       Some [TxParam 0x36 [0x68], SetGap 0 35, Malloc 108800]"
proof -
  have h: "\<forall>h f. io_result malloc_fails h (HwCall f) = ESP_OK"
    by (simp add: malloc_fails_def)
  have e: "map_option (\<lambda>s. drop 31 (trace s)) (startup malloc_fails) =
       Some [TxParam 0x36 [0x68], SetGap 0 35, Malloc 108800]"
    by (simp add: startup_def init_display_def init_lvgl_def initial_globals_def malloc_fails_def
      call_def emit_def lcd_st7789v_def param16_def set_display_orientation_def orientation_params_def
      clear_screen_def Let_def esp_defs lcd_defs orientation_defs)
  from startup_orientation_90 [of malloc_fails] h e show ?thesis
    by auto
qed

lemma reachable_valid_orientation:
  "reachable s \<Longrightarrow> valid_orientation (current_orientation s)"
proof (induction rule: reachable.induct)
  case (boot ev s)
  then obtain s0 where "init_display ev initial_globals = Some s0" "s = init_lvgl s0"
    by (auto simp: startup_def)
  then have "current_orientation s = DISPLAY_ORIENTATION_90"
    using init_display_frame [of ev initial_globals s0]
    by (simp add: initial_globals_def init_lvgl_def)
  then show ?case by (simp add: valid_orientation_def)
next
  case (orient s ev orientation)
  then show ?case by (simp add: set_display_orientation_valid)
next
  case (clear s ev color)
  then show ?case by (simp add: clear_screen_frame)
next
  case (flush s ev area color_p)
  then show ?case by (simp add: lvgl_flush_cb_frame)
qed

subsection \<open>Failure and retry of \<^verbatim>\<open>set_draw_area\<close>\<close>

text \<open>
  C9. A failing \<^verbatim>\<open>set_draw_area\<close> leaves \<^verbatim>\<open>current_orientation\<close> and the LVGL
  resolution as they were, so the same rectangle translates to the same window, and on a
  transport that accepts the parameter commands the retry returns \<^verbatim>\<open>ESP_OK\<close> after
  sending that window. The orientation is one of the four, as it is in every reachable
  state (\<open>reachable_valid_orientation\<close>).
\<close>

theorem set_draw_area_failure_retry:
  assumes v: "valid_orientation (current_orientation s)"
    and r: "set_draw_area ev x_start x_end y_start y_end s = (ret, s')"
    and f: "ret \<noteq> ESP_OK"
    and rec: "\<forall>h c p. io_result ev' h (TxParam c p) = ESP_OK"
  shows "current_orientation s' = current_orientation s \<and> lvgl_disp s' = lvgl_disp s
       \<and> translate (current_orientation s') x_start x_end y_start y_end =
           translate (current_orientation s) x_start x_end y_start y_end
       \<and> (\<exists>w. translate (current_orientation s) x_start x_end y_start y_end = Some w
             \<and> set_draw_area ev' x_start x_end y_start y_end s' =
                 (ESP_OK, s'\<lparr>trace := trace s' @ [caset w, raset w, ramwr]\<rparr>))"
proof -
  have fr: "current_orientation s' = current_orientation s" "lvgl_disp s' = lvgl_disp s"
    using set_draw_area_frame [of ev x_start x_end y_start y_end s] r by simp_all
  from v obtain w where w: "translate (current_orientation s) x_start x_end y_start y_end = Some w"
    using translate_valid by blast
  then have w': "translate (current_orientation s') x_start x_end y_start y_end = Some w"
    by (simp add: fr)
  have "set_draw_area ev' x_start x_end y_start y_end s' =
          (ESP_OK, s'\<lparr>trace := trace s' @ [caset w, raset w, ramwr]\<rparr>)"
    unfolding set_draw_area_steps [OF w']
    using rec by (simp add: caset_def raset_def ramwr_def)
  with fr w show ?thesis by simp
qed

theorem set_draw_area_failure_retry_witness:
  "valid_orientation (current_orientation initial_globals)
   \<and> set_draw_area raset_fails 300 319 30 40 initial_globals =
       (ESP_FAIL, initial_globals\<lparr>trace := [TxParam 0x2A [0, 30, 0, 40], TxParam 0x2B [1, 44, 1, 63]]\<rparr>)
   \<and> ESP_FAIL \<noteq> ESP_OK
   \<and> (\<forall>h c p. io_result transport_ok h (TxParam c p) = ESP_OK)
   \<and> set_draw_area transport_ok 300 319 30 40
        (initial_globals\<lparr>trace := [TxParam 0x2A [0, 30, 0, 40], TxParam 0x2B [1, 44, 1, 63]]\<rparr>) =
       (ESP_OK, initial_globals\<lparr>trace :=
          [TxParam 0x2A [0, 30, 0, 40], TxParam 0x2B [1, 44, 1, 63],
           TxParam 0x2A [0, 30, 0, 40], TxParam 0x2B [1, 44, 1, 63], TxParam 0x2C []]\<rparr>)"
proof -
  have v: "valid_orientation (current_orientation initial_globals)"
    by (simp add: valid_orientation_def initial_globals_def)
  have t: "translate (current_orientation initial_globals) 300 319 30 40 =
     Some \<lparr>col_start = 30, col_end = 40, row_start = 300, row_end = 319\<rparr>"
    by (simp add: initial_globals_def translate_def clamp_area_eq max_x_cases max_y_cases)
       (simp add: to_physical_def orientation_defs)
  have r: "set_draw_area raset_fails 300 319 30 40 initial_globals =
       (ESP_FAIL, initial_globals\<lparr>trace := [TxParam 0x2A [0, 30, 0, 40], TxParam 0x2B [1, 44, 1, 63]]\<rparr>)"
    unfolding set_draw_area_steps [OF t]
    by (simp add: raset_fails_def caset_def raset_def ESP_FAIL_def ESP_OK_def window_params_def
        initial_globals_def)
  have f: "ESP_FAIL \<noteq> ESP_OK"
    by (simp add: ESP_FAIL_def ESP_OK_def)
  have rec: "\<forall>h c p. io_result transport_ok h (TxParam c p) = ESP_OK"
    by (simp add: transport_ok_def)
  from set_draw_area_failure_retry [OF v r f rec] v r f rec t show ?thesis
    by (simp add: caset_def raset_def ramwr_def window_params_def initial_globals_def)
qed

end
